theory Spec2Isabelle
  imports Complex_Main "HOL-Library.Sublist"
begin

section \<open>Python values\<close>

text \<open>
  The engine and the formatter pass around what \<^verbatim>\<open>json\<close> decodes and encodes:
  \<^verbatim>\<open>None\<close>, booleans, integers, floats, strings, lists and dictionaries with
  string keys. A dictionary is an association list in insertion order; a key is looked
  up with \<open>map_of\<close>, so the first entry of a key is the one that counts. Floats are only
  carried from the caller to the payload, never computed with.
\<close>

datatype json =
    JNull
  | JBool bool
  | JInt int
  | JFloat real
  | JStr string
  | JList "json list"
  | JObj "(string \<times> json) list"

type_synonym dict = "(string \<times> json) list"

text \<open>\<^verbatim>\<open>k in d\<close> and \<^verbatim>\<open>d.get(k, default)\<close>.\<close>

definition has_key :: "dict \<Rightarrow> string \<Rightarrow> bool" where
  "has_key d k = (map_of d k \<noteq> None)"

definition dict_get :: "dict \<Rightarrow> string \<Rightarrow> json \<Rightarrow> json" where
  "dict_get d k dflt = (case map_of d k of None \<Rightarrow> dflt | Some v \<Rightarrow> v)"

text \<open>Python's truth value of an object, as \<^verbatim>\<open>if x:\<close> tests it.\<close>

fun truthy :: "json \<Rightarrow> bool" where
  "truthy JNull = False"
| "truthy (JBool b) = b"
| "truthy (JInt i) = (i \<noteq> 0)"
| "truthy (JFloat r) = (r \<noteq> 0)"
| "truthy (JStr s) = (s \<noteq> [])"
| "truthy (JList xs) = (xs \<noteq> [])"
| "truthy (JObj kvs) = (kvs \<noteq> [])"

section \<open>Regular expression search\<close>

text \<open>
  \<^verbatim>\<open>extract_function_call\<close> searches with the pattern
  \<^verbatim>\<open>\{[^}]*"name"[^}]*\}\<close>. The pattern is a sequence of items, each a single
  character test or a starred one. \<open>match_here\<close> is the backtracking matcher of
  \<^verbatim>\<open>re\<close> on such sequences: a star takes as many characters as it can and gives
  them back one at a time while the rest of the pattern fails. \<open>re_search\<close> tries
  every start position from the left and returns the first match.
\<close>

datatype cls = Lit char | Neg char

datatype rx = One cls | Star cls

fun accepts :: "cls \<Rightarrow> char \<Rightarrow> bool" where
  "accepts (Lit c) x = (x = c)"
| "accepts (Neg c) x = (x \<noteq> c)"

fun match_here :: "rx list \<Rightarrow> string \<Rightarrow> string option" where
  "match_here [] s = Some []"
| "match_here (One c # r) [] = None"
| "match_here (One c # r) (x # s) =
     (if accepts c x then map_option ((#) x) (match_here r s) else None)"
| "match_here (Star c # r) [] = match_here r []"
| "match_here (Star c # r) (x # s) =
     (if accepts c x
      then (case match_here (Star c # r) s of
              Some m \<Rightarrow> Some (x # m)
            | None \<Rightarrow> match_here r (x # s))
      else match_here r (x # s))"

fun re_search :: "rx list \<Rightarrow> string \<Rightarrow> string option" where
  "re_search p [] = match_here p []"
| "re_search p (x # s) =
     (case match_here p (x # s) of Some m \<Rightarrow> Some m | None \<Rightarrow> re_search p s)"

definition name_key :: string where
  \<open>name_key = ''"name"''\<close>

definition call_pattern :: "rx list" where
  "call_pattern =
     One (Lit CHR ''{'') # Star (Neg CHR ''}'') # map (\<lambda>c. One (Lit c)) name_key
       @ [Star (Neg CHR ''}''), One (Lit CHR ''}'')]"

section \<open>Function-call extraction\<close>

text \<open>
  \<^verbatim>\<open>json.loads\<close> belongs to the standard library, so the decoder is a parameter:
  \<open>loads s = None\<close> when decoding \<open>s\<close> raises. The bare \<^verbatim>\<open>except\<close> turns every
  exception into the final \<^verbatim>\<open>return None\<close>; Python's \<^verbatim>\<open>None\<close> is \<open>JNull\<close>.
\<close>

definition extract_function_call :: "(string \<Rightarrow> json option) \<Rightarrow> string \<Rightarrow> json" where
  "extract_function_call loads text =
     (case re_search call_pattern text of
        Some m \<Rightarrow> (case loads m of Some v \<Rightarrow> v | None \<Rightarrow> JNull)
      | None \<Rightarrow> JNull)"

section \<open>The runtime\<close>

text \<open>
  What the code takes from outside the repository: the \<^verbatim>\<open>json\<close> decoder and encoder,
  \<^verbatim>\<open>str()\<close> of a value that is not a string, the per-process \<^verbatim>\<open>hash\<close> of a
  string, the environment variables, and the backend reached by \<^verbatim>\<open>httpx.post\<close>.
  A request that fails in transport, by its status (\<^verbatim>\<open>raise_for_status\<close>) or
  in decoding the body is an \<open>Inl\<close> of \<open>http_post\<close>.
\<close>

datatype error =
    ValueError string
  | TypeError
  | AttributeError
  | HTTPError string

record http_request =
  url :: string
  payload :: dict
  headers :: "(string \<times> string) list"
  timeout :: real

record runtime =
  json_loads :: "string \<Rightarrow> json option"
  json_dumps :: "json \<Rightarrow> string"
  py_str :: "json \<Rightarrow> string"
  py_hash :: "string \<Rightarrow> int"
  getenv :: "string \<Rightarrow> string option"
  http_post :: "http_request \<Rightarrow> error + dict"

text \<open>A value inside an f-string: a string as it is, anything else through \<^verbatim>\<open>str()\<close>.\<close>

fun fstr :: "runtime \<Rightarrow> json \<Rightarrow> string" where
  "fstr rt (JStr s) = s"
| "fstr rt v = py_str rt v"

text \<open>\<^verbatim>\<open>d[k] = v\<close>: an existing key keeps its place, a new key goes last.\<close>

fun dict_set :: "dict \<Rightarrow> string \<Rightarrow> json \<Rightarrow> dict" where
  "dict_set [] k v = [(k, v)]"
| "dict_set ((k', v') # d) k v =
     (if k' = k then (k, v) # d else (k', v') # dict_set d k v)"

text \<open>\<^verbatim>\<open>str()\<close> of an integer, in decimal.\<close>

definition digit :: "nat \<Rightarrow> char" where
  "digit n = char_of (48 + n)"

fun str_nat :: "nat \<Rightarrow> string" where
  "str_nat n = (if n < 10 then [digit n] else str_nat (n div 10) @ [digit (n mod 10)])"

declare str_nat.simps [simp del]

definition str_int :: "int \<Rightarrow> string" where
  "str_int i = (if i < 0 then CHR ''-'' # str_nat (nat (- i)) else str_nat (nat i))"

text \<open>\<^verbatim>\<open>str.lower()\<close> on the letters A to Z.\<close>

definition lower_char :: "char \<Rightarrow> char" where
  "lower_char c =
     (let n = (of_char c :: nat) in if 65 \<le> n \<and> n \<le> 90 then char_of (n + 32) else c)"

definition getenv_default :: "runtime \<Rightarrow> string \<Rightarrow> string \<Rightarrow> string" where
  "getenv_default rt k dflt = (case getenv rt k of None \<Rightarrow> dflt | Some v \<Rightarrow> v)"

section \<open>Response normalisation\<close>

text \<open>
  \<^verbatim>\<open>parse_function_call_response\<close>. A response with \<^verbatim>\<open>choices\<close> is returned as
  it is. One with \<^verbatim>\<open>response\<close> becomes a chat completion; \<^verbatim>\<open>re.search\<close> raises
  \<^verbatim>\<open>TypeError\<close> on a value that is not a string, so a field that holds no text is
  an error. Any other response is returned as it is.
\<close>

definition parse_function_call_response :: "runtime \<Rightarrow> dict \<Rightarrow> dict \<Rightarrow> error + dict" where
  "parse_function_call_response rt response config =
     (if has_key response ''choices'' then Inr response
      else if has_key response ''response'' then
        (case dict_get response ''response'' (JStr []) of
           JStr text \<Rightarrow>
             Inr [(''id'', JStr (''call_'' @ str_int (py_hash rt text))),
                  (''object'', JStr ''chat.completion''),
                  (''created'', dict_get response ''created_at'' (JInt 0)),
                  (''model'', dict_get config ''model_name'' (JStr ''unknown'')),
                  (''choices'', JList [JObj
                     [(''index'', JInt 0),
                      (''message'', JObj
                         [(''role'', JStr ''assistant''),
                          (''content'', JStr text),
                          (''function_call'', extract_function_call (json_loads rt) text)]),
                      (''finish_reason'',
                         if truthy (extract_function_call (json_loads rt) text)
                         then JStr ''function_call'' else JStr ''stop'')]]),
                  (''usage'', JObj
                     [(''prompt_tokens'', JInt 0),
                      (''completion_tokens'', JInt 0),
                      (''total_tokens'', JInt 0)])]
         | _ \<Rightarrow> Inl TypeError)
      else Inr response)"

section \<open>Backend adapters\<close>

text \<open>
  An adapter builds its request, sends it and returns the outcome together with the
  list of requests sent so far; the \<^verbatim>\<open>except\<close> clause logs the error and raises it
  again, so a failure comes back unchanged.
\<close>

definition call_ollama ::
  "runtime \<Rightarrow> string \<Rightarrow> json \<Rightarrow> dict \<Rightarrow> real \<Rightarrow> int \<Rightarrow> http_request list
     \<Rightarrow> (error + dict) \<times> http_request list" where
  "call_ollama rt prompt tools config temperature max_tokens sent =
     (let base_url = dict_get config ''base_url'' (JStr ''http://localhost:11434'');
          model_name = dict_get config ''model_name'' (JStr ''default'');
          use_raw = dict_get config ''use_raw_mode'' (JBool False);
          url = fstr rt base_url @ ''/api/generate'';
          payload0 = [(''model'', model_name),
                      (''prompt'', JStr prompt),
                      (''stream'', JBool False),
                      (''options'', JObj [(''temperature'', JFloat temperature),
                                         (''num_predict'', JInt max_tokens)])];
          payload1 = (if truthy tools then
                        (case tools of
                           JStr xml \<Rightarrow>
                             dict_set payload0 ''prompt''
                               (JStr (prompt @ [CHR 0x0A, CHR 0x0A] @ xml))
                         | _ \<Rightarrow> dict_set payload0 ''context'' (JStr (json_dumps rt tools)))
                      else payload0);
          payload2 = (if truthy use_raw then dict_set payload1 ''raw'' (JBool True)
                      else payload1);
          req = \<lparr>url = url, payload = payload2, headers = [], timeout = 30\<rparr>
      in (case http_post rt req of
            Inl e \<Rightarrow> (Inl e, sent @ [req])
          | Inr result \<Rightarrow> (parse_function_call_response rt result config, sent @ [req])))"

definition call_vllm ::
  "runtime \<Rightarrow> string \<Rightarrow> json \<Rightarrow> dict \<Rightarrow> real \<Rightarrow> int \<Rightarrow> http_request list
     \<Rightarrow> (error + dict) \<times> http_request list" where
  "call_vllm rt prompt tools config temperature max_tokens sent =
     (let base_url = dict_get config ''base_url'' (JStr ''http://localhost:8000'');
          model_name = dict_get config ''model_name'' (JStr ''default'');
          url = fstr rt base_url @ ''/v1/chat/completions'';
          messages = JList [JObj [(''role'', JStr ''user''), (''content'', JStr prompt)]];
          payload0 = [(''model'', model_name),
                      (''messages'', messages),
                      (''temperature'', JFloat temperature),
                      (''max_tokens'', JInt max_tokens)];
          payload1 = (if truthy tools then
                        dict_set payload0 ''tools''
                          (case tools of JList ts \<Rightarrow> JList ts | _ \<Rightarrow> JList [tools])
                      else payload0);
          req = \<lparr>url = url, payload = payload1, headers = [], timeout = 30\<rparr>
      in (http_post rt req, sent @ [req]))"

definition call_openai_compatible ::
  "runtime \<Rightarrow> string \<Rightarrow> json \<Rightarrow> dict \<Rightarrow> real \<Rightarrow> int \<Rightarrow> http_request list
     \<Rightarrow> (error + dict) \<times> http_request list" where
  "call_openai_compatible rt prompt tools config temperature max_tokens sent =
     (let base_url = dict_get config ''base_url'' (JStr ''https://api.openai.com/v1'');
          model_name = dict_get config ''model_name'' (JStr ''gpt-3.5-turbo'');
          api_key = dict_get config ''api_key''
                      (case getenv rt ''OPENAI_API_KEY'' of None \<Rightarrow> JNull | Some k \<Rightarrow> JStr k);
          url = fstr rt base_url @ ''/chat/completions'';
          hdrs = [(''Authorization'', ''Bearer '' @ fstr rt api_key),
                  (''Content-Type'', ''application/json'')];
          messages = JList [JObj [(''role'', JStr ''user''), (''content'', JStr prompt)]];
          payload0 = [(''model'', model_name),
                      (''messages'', messages),
                      (''temperature'', JFloat temperature),
                      (''max_tokens'', JInt max_tokens)];
          payload1 = (if truthy tools then
                        dict_set payload0 ''tools''
                          (case tools of JList ts \<Rightarrow> JList ts | _ \<Rightarrow> JList [tools])
                      else payload0);
          req = \<lparr>url = url, payload = payload1, headers = hdrs, timeout = 30\<rparr>
      in (http_post rt req, sent @ [req]))"

section \<open>Dispatch\<close>

definition get_default_config :: "runtime \<Rightarrow> dict" where
  "get_default_config rt =
     [(''backend'', JStr (getenv_default rt ''MODEL_BACKEND'' ''ollama'')),
      (''model_name'', JStr (getenv_default rt ''MODEL_NAME'' ''default'')),
      (''base_url'', JStr (getenv_default rt ''MODEL_BASE_URL'' ''http://localhost:11434'')),
      (''tool_format'', JStr (getenv_default rt ''TOOL_FORMAT'' ''json'')),
      (''use_raw_mode'',
         JBool (map lower_char (getenv_default rt ''USE_RAW_MODE'' ''false'') = ''true''))]"

definition call_model ::
  "runtime \<Rightarrow> string \<Rightarrow> json \<Rightarrow> dict option \<Rightarrow> real \<Rightarrow> int \<Rightarrow> http_request list
     \<Rightarrow> (error + dict) \<times> http_request list" where
  "call_model rt prompt tools model_config temperature max_tokens sent =
     (let config = (case model_config of None \<Rightarrow> get_default_config rt | Some c \<Rightarrow> c);
          backend = dict_get config ''backend'' (JStr ''ollama'')
      in if backend = JStr ''ollama'' then
           call_ollama rt prompt tools config temperature max_tokens sent
         else if backend = JStr ''vllm'' then
           call_vllm rt prompt tools config temperature max_tokens sent
         else if backend = JStr ''openai'' then
           call_openai_compatible rt prompt tools config temperature max_tokens sent
         else (Inl (ValueError (''Unsupported backend: '' @ fstr rt backend)), sent))"

section \<open>Tool formatting\<close>

text \<open>
  \<^verbatim>\<open>json_tools_to_xml\<close> appends to \<^verbatim>\<open>xml_parts\<close> tool by tool and joins the parts
  at the end. \<^verbatim>\<open>.get\<close> on a tool or on its \<^verbatim>\<open>function\<close> entry raises
  \<^verbatim>\<open>AttributeError\<close> when that value is not a dictionary.
\<close>

fun xml_loop :: "runtime \<Rightarrow> json list \<Rightarrow> string list \<Rightarrow> error + string list" where
  "xml_loop rt [] xml_parts = Inr xml_parts"
| "xml_loop rt (tool # tools) xml_parts =
     (case tool of
        JObj t \<Rightarrow>
          (case dict_get t ''function'' (JObj []) of
             JObj func \<Rightarrow>
               (let name = dict_get func ''name'' (JStr []);
                    description = dict_get func ''description'' (JStr []);
                    parameters = dict_get func ''parameters'' (JObj []);
                    parts1 = xml_parts @ [''<tool name='' @ [CHR 0x27] @ fstr rt name
                                            @ [CHR 0x27] @ ''>''];
                    parts2 = parts1 @ [''<description>'' @ fstr rt description
                                         @ ''</description>''];
                    parts3 = (if truthy parameters then
                                parts2 @ [''<parameters>''] @ [json_dumps rt parameters]
                                  @ [''</parameters>'']
                              else parts2)
                in xml_loop rt tools (parts3 @ [''</tool>'']))
           | _ \<Rightarrow> Inl AttributeError)
      | _ \<Rightarrow> Inl AttributeError)"

definition json_tools_to_xml :: "runtime \<Rightarrow> json list \<Rightarrow> error + string" where
  "json_tools_to_xml rt tools =
     (case xml_loop rt tools [''<tools>''] of
        Inl e \<Rightarrow> Inl e
      | Inr xml_parts \<Rightarrow> Inr (concat (xml_parts @ [''</tools>''])))"

definition format_tools_for_model :: "runtime \<Rightarrow> json list \<Rightarrow> string \<Rightarrow> error + json" where
  "format_tools_for_model rt tools format_type =
     (if format_type = ''xml'' then
        (case json_tools_to_xml rt tools of Inl e \<Rightarrow> Inl e | Inr xml \<Rightarrow> Inr (JStr xml))
      else if format_type = ''function_calling'' then Inr (JObj [(''tools'', JList tools)])
      else Inr (JList tools))"

text \<open>\<^verbatim>\<open>xml_tools_to_json\<close> parses nothing: its body is \<^verbatim>\<open>return []\<close>.\<close>

definition xml_tools_to_json :: "string \<Rightarrow> error + json list" where
  "xml_tools_to_json xml_string = Inr []"

section \<open>The notions of the specification\<close>

text \<open>
  The call object of a text at a position: an opening brace, the characters up to the
  first closing brace after it, among them the key \<^verbatim>\<open>"name"\<close> with its quotes, and
  that closing brace. There is none when the text has no opening brace at the position,
  no closing brace after it, or no key in between.
\<close>

definition call_object_here :: "string \<Rightarrow> string option" where
  "call_object_here s =
     (case s of
        [] \<Rightarrow> None
      | c # rest \<Rightarrow>
          if c = CHR ''{'' \<and> CHR ''}'' \<in> set rest
             \<and> sublist name_key (takeWhile (\<lambda>x. x \<noteq> CHR ''}'') rest)
          then Some (CHR ''{'' # takeWhile (\<lambda>x. x \<noteq> CHR ''}'') rest @ ''}'')
          else None)"

definition call_object_at :: "string \<Rightarrow> nat \<Rightarrow> string option" where
  "call_object_at text i = call_object_here (drop i text)"

text \<open>
  Python's decoder gives a false value (\<^verbatim>\<open>None\<close>, \<^verbatim>\<open>False\<close>, a zero, an empty
  string, list or dictionary) only for a text that is white space around \<^verbatim>\<open>null\<close>,
  \<^verbatim>\<open>false\<close>, a zero number, \<^verbatim>\<open>""\<close>, or a pair of brackets with white space
  between them. None of these texts contains \<^verbatim>\<open>"name"\<close>; that much of the decoder
  is what the finish reason depends on.
\<close>

definition decodes_name_texts_to_true :: "(string \<Rightarrow> json option) \<Rightarrow> bool" where
  "decodes_name_texts_to_true loads \<longleftrightarrow>
     (\<forall>s v. loads s = Some v \<longrightarrow> sublist name_key s \<longrightarrow> truthy v)"

text \<open>
  A raw response has a flat text field when its \<^verbatim>\<open>response\<close> entry holds a string.
\<close>

definition has_response_text :: "dict \<Rightarrow> bool" where
  "has_response_text raw =
     (case map_of raw ''response'' of Some (JStr s) \<Rightarrow> True | _ \<Rightarrow> False)"

text \<open>
  The payload of a chat-completion request: the model, one user message with the
  prompt, the temperature, the token limit, and the tools (as a list) when tools are
  given, that is when \<^verbatim>\<open>tools\<close> is a true value.
\<close>

definition is_chat_payload :: "dict \<Rightarrow> json \<Rightarrow> string \<Rightarrow> json \<Rightarrow> real \<Rightarrow> int \<Rightarrow> bool" where
  "is_chat_payload p model_id prompt tools temperature max_tokens \<longleftrightarrow>
     map_of p ''model'' = Some model_id \<and>
     map_of p ''messages'' =
       Some (JList [JObj [(''role'', JStr ''user''), (''content'', JStr prompt)]]) \<and>
     map_of p ''temperature'' = Some (JFloat temperature) \<and>
     map_of p ''max_tokens'' = Some (JInt max_tokens) \<and>
     map_of p ''tools'' =
       (if truthy tools
        then Some (case tools of JList ts \<Rightarrow> JList ts | _ \<Rightarrow> JList [tools])
        else None)"

section \<open>A runtime for the examples\<close>

text \<open>
  A decoder that knows one text, an encoder and a \<^verbatim>\<open>str()\<close> that print a fixed
  mark, a hash that is always 42, an empty environment and a backend that answers
  every request with a plain generated text.
\<close>

definition lookup_text :: string where
  \<open>lookup_text = ''{"name": "lookup", "arg": 1}''\<close>

definition example_loads :: "string \<Rightarrow> json option" where
  "example_loads s =
     (if s = lookup_text then Some (JObj [(''name'', JStr ''lookup''), (''arg'', JInt 1)])
      else None)"

definition example_runtime :: runtime where
  "example_runtime =
     \<lparr>json_loads = example_loads,
      json_dumps = (\<lambda>v. ''<json>''),
      py_str = (\<lambda>v. ''<str>''),
      py_hash = (\<lambda>s. 42),
      getenv = (\<lambda>k. None),
      http_post = (\<lambda>r. Inr [(''response'', JStr ''ok'')])\<rparr>"

definition lookup_example :: string where
  \<open>lookup_example = ''leading text {"name": "lookup", "arg": 1} trailing''\<close>

text \<open>
  Tool schemas for the markup: two plain tools \<^verbatim>\<open>a\<close> and \<^verbatim>\<open>b\<close>, one tool whose
  description is \<^verbatim>\<open>d</description></tool><tool name='b'><description>e\<close>, and one
  tool whose name is \<^verbatim>\<open>a'b\<close>.
\<close>

definition tool_a :: json where
  "tool_a = JObj [(''type'', JStr ''function''),
                  (''function'', JObj [(''name'', JStr ''a''), (''description'', JStr ''d'')])]"

definition tool_b :: json where
  "tool_b = JObj [(''type'', JStr ''function''),
                  (''function'', JObj [(''name'', JStr ''b''), (''description'', JStr ''e'')])]"

definition tool_closing_description :: json where
  "tool_closing_description =
     JObj [(''type'', JStr ''function''),
           (''function'', JObj
              [(''name'', JStr ''a''),
               (''description'',
                  JStr (''d</description></tool><tool name='' @ [CHR 0x27] @ ''b'' @ [CHR 0x27]
                        @ ''><description>e''))])]"

definition tool_quoted_name :: json where
  "tool_quoted_name =
     JObj [(''type'', JStr ''function''),
           (''function'', JObj [(''name'', JStr (''a'' @ [CHR 0x27] @ ''b'')),
                                (''description'', JStr ''d'')])]"

section \<open>What the search finds\<close>

text \<open>
  The matcher on \<open>call_pattern\<close> finds, at the start of a text, exactly the call
  object there: the first star runs to the first closing brace and gives characters
  back until the key fits, the second star runs to that same brace. The search
  therefore returns the call object of the leftmost position that has one.
\<close>

lemma match_tail:
  "match_here [Star (Neg c), One (Lit c)] s =
     (if c \<in> set s then Some (takeWhile (\<lambda>x. x \<noteq> c) s @ [c]) else None)"
  by (induction s) auto

lemma match_lits:
  "match_here (map (\<lambda>a. One (Lit a)) w @ r) s =
     (if prefix w s then map_option ((@) w) (match_here r (drop (length w) s)) else None)"
proof (induction w arbitrary: s)
  case Nil
  show ?case by (cases "match_here r s") simp_all
next
  case (Cons a w)
  show ?case
  proof (cases s)
    case Nil
    then show ?thesis by simp
  next
    case (Cons x t)
    then show ?thesis using Cons.IH [of t] by (auto simp: option.map_comp comp_def)
  qed
qed

lemma takeWhile_prefix:
  assumes "c \<notin> set w" and "prefix w s"
  shows "takeWhile (\<lambda>x. x \<noteq> c) s = w @ takeWhile (\<lambda>x. x \<noteq> c) (drop (length w) s)"
proof -
  from assms(2) obtain t where s: "s = w @ t" by (auto simp: prefix_def)
  have "takeWhile (\<lambda>x. x \<noteq> c) (w @ t) = w @ takeWhile (\<lambda>x. x \<noteq> c) t"
    using assms(1) by (intro takeWhile_append2) auto
  then show ?thesis by (simp add: s)
qed

lemma prefix_takeWhile_iff:
  assumes "c \<notin> set w"
  shows "prefix w (takeWhile (\<lambda>x. x \<noteq> c) s) \<longleftrightarrow> prefix w s"
proof
  assume "prefix w (takeWhile (\<lambda>x. x \<noteq> c) s)"
  moreover have "prefix (takeWhile (\<lambda>x. x \<noteq> c) s) s"
    by (metis prefixI takeWhile_dropWhile_id)
  ultimately show "prefix w s" by (rule prefix_order.trans)
next
  assume "prefix w s"
  from takeWhile_prefix [OF assms this] show "prefix w (takeWhile (\<lambda>x. x \<noteq> c) s)"
    by simp
qed

lemma mem_drop_prefix:
  assumes "c \<notin> set w" and "prefix w s"
  shows "c \<in> set (drop (length w) s) \<longleftrightarrow> c \<in> set s"
proof -
  from assms(2) obtain t where s: "s = w @ t" by (auto simp: prefix_def)
  show ?thesis using assms(1) by (auto simp: s)
qed

lemma match_star:
  assumes w: "w \<noteq> []" and c: "c \<notin> set w"
  shows "match_here (Star (Neg c) # map (\<lambda>a. One (Lit a)) w @ [Star (Neg c), One (Lit c)]) s =
     (if c \<in> set s \<and> sublist w (takeWhile (\<lambda>x. x \<noteq> c) s)
      then Some (takeWhile (\<lambda>x. x \<noteq> c) s @ [c]) else None)"
proof (induction s)
  case Nil
  show ?case using w by (simp add: match_lits)
next
  case (Cons x s)
  let ?tw = "takeWhile (\<lambda>x. x \<noteq> c)"
  let ?rest = "map (\<lambda>a. One (Lit a)) w @ [Star (Neg c), One (Lit c)]"
  have direct: "match_here ?rest (x # s) =
      (if prefix w (x # s) \<and> c \<in> set (x # s) then Some (?tw (x # s) @ [c]) else None)"
    using takeWhile_prefix [OF c, of "x # s"] mem_drop_prefix [OF c, of "x # s"]
    by (simp add: match_lits match_tail del: prefix_Cons set_simps takeWhile.simps drop_Suc_Cons)
  show ?case
  proof (cases "x = c")
    case True
    have "\<not> prefix w (c # s)" using w c by (cases w) auto
    then show ?thesis using True direct w by simp
  next
    case False
    have pre: "prefix w (x # ?tw s) \<longleftrightarrow> prefix w (x # s)"
      using prefix_takeWhile_iff [OF c, of "x # s"] False by simp
    show ?thesis
    proof (cases "c \<in> set s \<and> sublist w (?tw s)")
      case True
      then show ?thesis using False Cons.IH by (simp add: sublist_Cons_right)
    next
      case no: False
      then have "match_here (Star (Neg c) # ?rest) s = None" using Cons.IH by simp
      then have "match_here (Star (Neg c) # ?rest) (x # s) = match_here ?rest (x # s)"
        using False by simp
      also have "\<dots> = (if prefix w (x # s) \<and> c \<in> set (x # s) then Some (?tw (x # s) @ [c]) else None)"
        by (rule direct)
      also have "\<dots> = (if c \<in> set (x # s) \<and> sublist w (?tw (x # s))
                        then Some (?tw (x # s) @ [c]) else None)"
        using no False pre by (auto simp: sublist_Cons_right)
      finally show ?thesis .
    qed
  qed
qed

lemma match_call_pattern: "match_here call_pattern s = call_object_here s"
proof (cases s)
  case Nil
  then show ?thesis by (simp add: call_pattern_def call_object_here_def)
next
  case (Cons x t)
  have nk: "name_key \<noteq> []" "CHR ''}'' \<notin> set name_key" by (simp_all add: name_key_def)
  show ?thesis
    unfolding call_pattern_def Cons
    by (simp add: match_star [OF nk] call_object_here_def del: map_append)
qed


lemma call_object_at_Suc: "call_object_at (x # s) (Suc i) = call_object_at s i"
  by (simp add: call_object_at_def)

lemma call_object_at_0: "call_object_at s 0 = call_object_here s"
  by (simp add: call_object_at_def)

lemma re_search_none:
  "(\<forall>i. call_object_at s i = None) \<Longrightarrow> re_search call_pattern s = None"
proof (induction s)
  case Nil
  then show ?case using call_object_at_0 [of "[]"] by (simp add: match_call_pattern)
next
  case (Cons x s)
  have "call_object_here (x # s) = None" using Cons.prems call_object_at_0 by metis
  moreover have "\<forall>i. call_object_at s i = None"
    using Cons.prems call_object_at_Suc by metis
  ultimately show ?case using Cons.IH by (simp add: match_call_pattern)
qed

lemma re_search_first:
  "call_object_at s i = Some m \<Longrightarrow> (\<forall>j<i. call_object_at s j = None)
     \<Longrightarrow> re_search call_pattern s = Some m"
proof (induction s arbitrary: i)
  case Nil
  then show ?case by (simp add: call_object_at_def call_object_here_def)
next
  case (Cons x s)
  show ?case
  proof (cases i)
    case 0
    then show ?thesis using Cons.prems(1) by (simp add: match_call_pattern call_object_at_0)
  next
    case (Suc k)
    have "call_object_at (x # s) 0 = None" using Cons.prems(2) Suc by blast
    then have here: "call_object_here (x # s) = None" by (simp add: call_object_at_0)
    have at: "call_object_at s k = Some m" using Cons.prems(1) Suc by (simp add: call_object_at_Suc)
    have "\<forall>j<k. call_object_at s j = None"
    proof (intro allI impI)
      fix j assume "j < k"
      then have "call_object_at (x # s) (Suc j) = None" using Cons.prems(2) Suc by simp
      then show "call_object_at s j = None" by (simp add: call_object_at_Suc)
    qed
    from Cons.IH [OF at this] show ?thesis by (simp add: match_call_pattern here)
  qed
qed

lemma re_search_some_at:
  "re_search call_pattern s = Some m \<Longrightarrow> \<exists>i. call_object_at s i = Some m"
proof (induction s)
  case Nil
  then show ?case by (simp add: match_call_pattern call_object_here_def)
next
  case (Cons x s)
  show ?case
  proof (cases "call_object_here (x # s)")
    case None
    then have "re_search call_pattern s = Some m" using Cons.prems by (simp add: match_call_pattern)
    then obtain i where "call_object_at s i = Some m" using Cons.IH by blast
    then have "call_object_at (x # s) (Suc i) = Some m" by (simp add: call_object_at_Suc)
    then show ?thesis by blast
  next
    case (Some a)
    then have "call_object_at (x # s) 0 = Some m" using Cons.prems
      by (simp add: match_call_pattern call_object_at_0)
    then show ?thesis by blast
  qed
qed

lemma call_object_here_name: "call_object_here s = Some m \<Longrightarrow> sublist name_key m"
  by (auto simp: call_object_here_def sublist_Cons_right sublist_append split: list.splits if_splits)

lemma re_search_name: "re_search call_pattern s = Some m \<Longrightarrow> sublist name_key m"
  using re_search_some_at call_object_here_name call_object_at_def by metis

lemma call_object_at_brace: "call_object_at s i = Some m \<Longrightarrow> CHR ''{'' \<in> set s"
proof -
  assume a: "call_object_at s i = Some m"
  then obtain rest where "drop i s = CHR ''{'' # rest"
    by (auto simp: call_object_at_def call_object_here_def split: list.splits if_splits)
  then have "CHR ''{'' \<in> set (drop i s)" by simp
  then show ?thesis by (meson in_set_dropD)
qed

lemma no_call_object_plain: "call_object_at ''no function call here'' i = None"
proof (cases "call_object_at ''no function call here'' i")
  case None
  then show ?thesis .
next
  case (Some m)
  from call_object_at_brace [OF this] show ?thesis by simp
qed

lemma lookup_example_at: "call_object_at lookup_example 13 = Some lookup_text"
  by (simp add: call_object_at_def call_object_here_def lookup_example_def lookup_text_def name_key_def)

lemma lookup_example_before:
  "list_all (\<lambda>j. call_object_at lookup_example j = None) [0..<13]"
  by code_simp

text \<open>
  C1. \<^verbatim>\<open>extract_function_call\<close> returns \<^verbatim>\<open>None\<close> when the text has no call object
  at any position. When it has one, let \<open>m\<close> be the call object at the first position
  that has one: the result is what the decoder makes of \<open>m\<close>, and \<^verbatim>\<open>None\<close> when
  the decoder raises. For \<^verbatim>\<open>no function call here\<close> the result is \<^verbatim>\<open>None\<close>; for
  \<^verbatim>\<open>leading text {"name": "lookup", "arg": 1} trailing\<close> it is the dictionary the
  decoder makes of \<^verbatim>\<open>{"name": "lookup", "arg": 1}\<close>.
\<close>

theorem extract_function_call_first_object:
  "((\<forall>i. call_object_at text i = None) \<longrightarrow> extract_function_call loads text = JNull) \<and>
   (call_object_at text i = Some m \<and> list_all (\<lambda>j. call_object_at text j = None) [0..<i] \<longrightarrow>
      extract_function_call loads text = (case loads m of Some v \<Rightarrow> v | None \<Rightarrow> JNull)) \<and>
   extract_function_call loads ''no function call here'' = JNull \<and>
   (loads lookup_text = Some (JObj call) \<longrightarrow> extract_function_call loads lookup_example = JObj call)"
proof (intro conjI impI)
  assume "\<forall>i. call_object_at text i = None"
  then show "extract_function_call loads text = JNull"
    by (simp add: extract_function_call_def re_search_none)
next
  assume a: "call_object_at text i = Some m \<and> list_all (\<lambda>j. call_object_at text j = None) [0..<i]"
  then have "\<forall>j<i. call_object_at text j = None" by (simp add: list_all_iff)
  with a have "re_search call_pattern text = Some m" using re_search_first by blast
  then show "extract_function_call loads text = (case loads m of Some v \<Rightarrow> v | None \<Rightarrow> JNull)"
    by (simp add: extract_function_call_def)
next
  show "extract_function_call loads ''no function call here'' = JNull"
    using re_search_none [of "''no function call here''"] no_call_object_plain
    by (simp add: extract_function_call_def)
next
  assume l: "loads lookup_text = Some (JObj call)"
  have "\<forall>j<13. call_object_at lookup_example j = None"
    using lookup_example_before by (simp add: list_all_iff)
  then have "re_search call_pattern lookup_example = Some lookup_text"
    using re_search_first [OF lookup_example_at] by blast
  then show "extract_function_call loads lookup_example = JObj call"
    using l by (simp add: extract_function_call_def)
qed

theorem extract_function_call_first_object_witness:
  "(\<forall>i. call_object_at ''no function call here'' i = None) \<and>
   extract_function_call example_loads ''no function call here'' = JNull \<and>
   call_object_at lookup_example 13 = Some lookup_text \<and>
   list_all (\<lambda>j. call_object_at lookup_example j = None) [0..<13] \<and>
   example_loads lookup_text = Some (JObj [(''name'', JStr ''lookup''), (''arg'', JInt 1)]) \<and>
   extract_function_call example_loads lookup_example =
     JObj [(''name'', JStr ''lookup''), (''arg'', JInt 1)]"
  using extract_function_call_first_object
    [of "''no function call here''" example_loads]
    extract_function_call_first_object
    [of lookup_example example_loads 13 lookup_text
       "[(''name'', JStr ''lookup''), (''arg'', JInt 1)]"]
    no_call_object_plain lookup_example_at lookup_example_before
  by (simp add: example_loads_def)

section \<open>Normalisation: pass-through and the plain reply\<close>

lemma re_search_hello: "re_search call_pattern ''hello'' = None"
  by (simp add: call_pattern_def name_key_def)

lemma extract_hello: "extract_function_call loads ''hello'' = JNull"
  unfolding extract_function_call_def re_search_hello by simp

text \<open>
  C2. The raw response \<^verbatim>\<open>{"response": "hello", "created_at": 5}\<close> is normalised,
  under every runtime and configuration, to a chat completion with one choice: content
  \<^verbatim>\<open>hello\<close>, no function call, finish reason \<^verbatim>\<open>stop\<close>; \<^verbatim>\<open>created\<close> is 5 and the
  three usage counts are 0.
\<close>

theorem normalize_hello:
  "parse_function_call_response rt [(''response'', JStr ''hello''), (''created_at'', JInt 5)] config =
     Inr [(''id'', JStr (''call_'' @ str_int (py_hash rt ''hello''))),
          (''object'', JStr ''chat.completion''),
          (''created'', JInt 5),
          (''model'', dict_get config ''model_name'' (JStr ''unknown'')),
          (''choices'', JList [JObj
             [(''index'', JInt 0),
              (''message'', JObj
                 [(''role'', JStr ''assistant''),
                  (''content'', JStr ''hello''),
                  (''function_call'', JNull)]),
              (''finish_reason'', JStr ''stop'')]]),
          (''usage'', JObj
             [(''prompt_tokens'', JInt 0),
              (''completion_tokens'', JInt 0),
              (''total_tokens'', JInt 0)])]"
  by (simp add: parse_function_call_response_def has_key_def dict_get_def extract_hello)

text \<open>
  C4, as the code has it. A raw response that has the key \<^verbatim>\<open>choices\<close> is returned
  unchanged, and so is one that has neither the key \<^verbatim>\<open>choices\<close> nor the key
  \<^verbatim>\<open>response\<close>, whatever the other entries are.
\<close>

theorem normalize_pass_through:
  "(has_key raw ''choices'' \<longrightarrow> parse_function_call_response rt raw config = Inr raw) \<and>
   (\<not> has_key raw ''choices'' \<and> \<not> has_key raw ''response'' \<longrightarrow>
      parse_function_call_response rt raw config = Inr raw)"
  by (simp add: parse_function_call_response_def)

theorem normalize_pass_through_witness:
  "has_key [(''choices'', JList []), (''response'', JStr ''x'')] ''choices'' \<and>
   parse_function_call_response example_runtime
     [(''choices'', JList []), (''response'', JStr ''x'')] [] =
     Inr [(''choices'', JList []), (''response'', JStr ''x'')] \<and>
   \<not> has_key [(''error'', JStr ''busy'')] ''choices'' \<and>
   \<not> has_key [(''error'', JStr ''busy'')] ''response'' \<and>
   parse_function_call_response example_runtime [(''error'', JStr ''busy'')] [] =
     Inr [(''error'', JStr ''busy'')]"
  using normalize_pass_through
    [of "[(''choices'', JList []), (''response'', JStr ''x'')]" example_runtime "[]"]
    normalize_pass_through [of "[(''error'', JStr ''busy'')]" example_runtime "[]"]
  by (simp add: has_key_def)

text \<open>
  The raw response \<^verbatim>\<open>{"response": 5}\<close> has no key \<^verbatim>\<open>choices\<close> and no flat text
  field, since its \<^verbatim>\<open>response\<close> entry is a number. It is not returned unchanged: the
  key is there, the second branch is taken and the search on the number raises
  \<^verbatim>\<open>TypeError\<close>.
\<close>

theorem normalize_non_text_counterexample:
  "\<not> has_key [(''response'', JInt 5)] ''choices'' \<and>
   \<not> has_response_text [(''response'', JInt 5)] \<and>
   parse_function_call_response example_runtime [(''response'', JInt 5)] [] = Inl TypeError \<and>
   parse_function_call_response example_runtime [(''response'', JInt 5)] [] \<noteq>
     Inr [(''response'', JInt 5)]"
  by (simp add: parse_function_call_response_def has_key_def has_response_text_def dict_get_def)

subsection \<open>The finish reason\<close>

lemma extract_true_iff:
  assumes "decodes_name_texts_to_true loads"
  shows "truthy (extract_function_call loads s) \<longleftrightarrow> extract_function_call loads s \<noteq> JNull"
proof (cases "re_search call_pattern s")
  case None
  then show ?thesis by (simp add: extract_function_call_def)
next
  case (Some m)
  show ?thesis
  proof (cases "loads m")
    case None
    then show ?thesis using Some by (simp add: extract_function_call_def)
  next
    case (Some v)
    have "sublist name_key m" using \<open>re_search call_pattern s = Some m\<close> by (rule re_search_name)
    then have "truthy v" using assms Some by (simp add: decodes_name_texts_to_true_def)
    moreover have "extract_function_call loads s = v"
      using Some \<open>re_search call_pattern s = Some m\<close> by (simp add: extract_function_call_def)
    ultimately show ?thesis by auto
  qed
qed

lemma normalize_text_truthy:
  assumes "\<not> has_key raw ''choices''" and "map_of raw ''response'' = Some (JStr s)"
  shows "\<exists>canonical choice.
           parse_function_call_response rt raw config = Inr canonical \<and>
           map_of canonical ''choices'' = Some (JList [JObj choice]) \<and>
           map_of choice ''finish_reason'' =
             Some (JStr (if truthy (extract_function_call (json_loads rt) s)
                         then ''function_call'' else ''stop''))"
  using assms by (simp add: parse_function_call_response_def has_key_def dict_get_def)

lemma example_loads_true: "decodes_name_texts_to_true (json_loads example_runtime)"
  by (simp add: decodes_name_texts_to_true_def example_runtime_def example_loads_def)

lemma extract_lookup_example:
  "extract_function_call (json_loads example_runtime) lookup_example =
     JObj [(''name'', JStr ''lookup''), (''arg'', JInt 1)]"
proof -
  have "\<forall>j<13. call_object_at lookup_example j = None"
    using lookup_example_before by (simp add: list_all_iff)
  then have "re_search call_pattern lookup_example = Some lookup_text"
    using re_search_first [OF lookup_example_at] by blast
  then show ?thesis
    by (simp add: extract_function_call_def example_runtime_def example_loads_def)
qed

text \<open>
  C3. For a raw response without the key \<^verbatim>\<open>choices\<close> whose \<^verbatim>\<open>response\<close> field is a
  text, and a decoder that gives no false value for a text with \<^verbatim>\<open>"name"\<close> in it,
  the normalised response has exactly one choice, and the finish reason of that choice
  is \<^verbatim>\<open>function_call\<close> when the extraction on the text returned a call and
  \<^verbatim>\<open>stop\<close> when it returned \<^verbatim>\<open>None\<close>.
\<close>

theorem normalize_text_finish_reason:
  assumes "\<not> has_key raw ''choices''" and "map_of raw ''response'' = Some (JStr s)"
    and "decodes_name_texts_to_true (json_loads rt)"
  shows "\<exists>canonical choice.
           parse_function_call_response rt raw config = Inr canonical \<and>
           map_of canonical ''choices'' = Some (JList [JObj choice]) \<and>
           map_of choice ''finish_reason'' =
             Some (JStr (if extract_function_call (json_loads rt) s \<noteq> JNull
                         then ''function_call'' else ''stop''))"
  using normalize_text_truthy [OF assms(1,2), of rt config] extract_true_iff [OF assms(3), of s]
  by simp

theorem normalize_text_finish_reason_witness:
  "\<not> has_key [(''response'', JStr lookup_example)] ''choices'' \<and>
   map_of [(''response'', JStr lookup_example)] ''response'' = Some (JStr lookup_example) \<and>
   decodes_name_texts_to_true (json_loads example_runtime) \<and>
   (\<exists>canonical choice.
      parse_function_call_response example_runtime [(''response'', JStr lookup_example)] [] =
        Inr canonical \<and>
      map_of canonical ''choices'' = Some (JList [JObj choice]) \<and>
      map_of choice ''finish_reason'' = Some (JStr ''function_call'')) \<and>
   \<not> has_key [(''response'', JStr ''hello'')] ''choices'' \<and>
   map_of [(''response'', JStr ''hello'')] ''response'' = Some (JStr ''hello'') \<and>
   (\<exists>canonical choice.
      parse_function_call_response example_runtime [(''response'', JStr ''hello'')] [] =
        Inr canonical \<and>
      map_of canonical ''choices'' = Some (JList [JObj choice]) \<and>
      map_of choice ''finish_reason'' = Some (JStr ''stop''))"
proof -
  have c1: "\<not> has_key [(''response'', JStr lookup_example)] ''choices''"
    and c2: "\<not> has_key [(''response'', JStr ''hello'')] ''choices''"
    by (simp_all add: has_key_def)
  have r1: "map_of [(''response'', JStr lookup_example)] ''response'' = Some (JStr lookup_example)"
    and r2: "map_of [(''response'', JStr ''hello'')] ''response'' = Some (JStr ''hello'')"
    by simp_all
  note d = example_loads_true
  show ?thesis
    using c1 c2 r1 r2 d
      normalize_text_finish_reason [OF c1 r1 d, of "[]"]
      normalize_text_finish_reason [OF c2 r2 d, of "[]"]
    by (simp add: extract_lookup_example extract_hello)
qed

section \<open>Dispatch on the backend\<close>

text \<open>
  C5. When the backend of the configuration in force (the one given, or the default
  one built from the environment) is none of \<^verbatim>\<open>ollama\<close>, \<^verbatim>\<open>vllm\<close> and
  \<^verbatim>\<open>openai\<close>, \<^verbatim>\<open>call_model\<close> raises the \<^verbatim>\<open>ValueError\<close> "Unsupported backend"
  and the list of requests sent is what it was: no adapter has run.
\<close>

theorem call_model_unsupported_backend:
  assumes "backend = dict_get (case model_config of None \<Rightarrow> get_default_config rt | Some c \<Rightarrow> c)
                       ''backend'' (JStr ''ollama'')"
    and "backend \<notin> {JStr ''ollama'', JStr ''vllm'', JStr ''openai''}"
  shows "call_model rt prompt tools model_config temperature max_tokens sent =
           (Inl (ValueError (''Unsupported backend: '' @ fstr rt backend)), sent)"
  using assms by (simp add: call_model_def Let_def)

theorem call_model_unsupported_backend_witness:
  "JStr ''unknown-xyz'' =
     dict_get (case Some [(''backend'', JStr ''unknown-xyz'')] of
                 None \<Rightarrow> get_default_config example_runtime | Some c \<Rightarrow> c)
       ''backend'' (JStr ''ollama'') \<and>
   JStr ''unknown-xyz'' \<notin> {JStr ''ollama'', JStr ''vllm'', JStr ''openai''} \<and>
   call_model example_runtime ''hi'' JNull (Some [(''backend'', JStr ''unknown-xyz'')]) 0.7 1000 [] =
     (Inl (ValueError ''Unsupported backend: unknown-xyz''), [])"
proof -
  have h1: "JStr ''unknown-xyz'' =
     dict_get (case Some [(''backend'', JStr ''unknown-xyz'')] of
                 None \<Rightarrow> get_default_config example_runtime | Some c \<Rightarrow> c)
       ''backend'' (JStr ''ollama'')"
    by (simp add: dict_get_def)
  have h2: "JStr ''unknown-xyz'' \<notin> {JStr ''ollama'', JStr ''vllm'', JStr ''openai''}"
    by simp
  show ?thesis
    using h1 h2
      call_model_unsupported_backend [OF h1 h2, of "''hi''" JNull "0.7" 1000 "[]"]
    by simp
qed

section \<open>The chat-completion payload\<close>

text \<open>
  C9. \<^verbatim>\<open>call_vllm\<close> and \<^verbatim>\<open>call_openai_compatible\<close> each send one request, and its
  payload has the model of the configuration (by default \<^verbatim>\<open>default\<close>, respectively
  \<^verbatim>\<open>gpt-3.5-turbo\<close>), a list of messages with the prompt as its one user message,
  the temperature and the token limit. When \<^verbatim>\<open>tools\<close> is a true value the payload
  has it under \<^verbatim>\<open>tools\<close>, a list as it is and anything else as a list of one
  element; otherwise the payload has no \<^verbatim>\<open>tools\<close>.
\<close>

theorem chat_completion_payload:
  "(\<exists>req. call_vllm rt prompt tools config temperature max_tokens sent =
             (http_post rt req, sent @ [req]) \<and>
           is_chat_payload (payload req) (dict_get config ''model_name'' (JStr ''default''))
             prompt tools temperature max_tokens) \<and>
   (\<exists>req. call_openai_compatible rt prompt tools config temperature max_tokens sent =
             (http_post rt req, sent @ [req]) \<and>
           is_chat_payload (payload req) (dict_get config ''model_name'' (JStr ''gpt-3.5-turbo''))
             prompt tools temperature max_tokens)"
  by (simp add: call_vllm_def call_openai_compatible_def Let_def is_chat_payload_def)


theorem chat_completion_payload_witness:
  "truthy (JObj [(''name'', JStr ''f'')]) \<and>
   (\<exists>req. call_vllm example_runtime ''hi'' (JObj [(''name'', JStr ''f'')])
             [(''model_name'', JStr ''m'')] 0.7 1000 [] = (http_post example_runtime req, [req]) \<and>
          map_of (payload req) ''model'' = Some (JStr ''m'') \<and>
          map_of (payload req) ''messages'' =
            Some (JList [JObj [(''role'', JStr ''user''), (''content'', JStr ''hi'')]]) \<and>
          map_of (payload req) ''temperature'' = Some (JFloat 0.7) \<and>
          map_of (payload req) ''max_tokens'' = Some (JInt 1000) \<and>
          map_of (payload req) ''tools'' = Some (JList [JObj [(''name'', JStr ''f'')]])) \<and>
   \<not> truthy JNull \<and>
   (\<exists>req. call_openai_compatible example_runtime ''hi'' JNull [] 0.7 1000 [] =
             (http_post example_runtime req, [req]) \<and>
          map_of (payload req) ''model'' = Some (JStr ''gpt-3.5-turbo'') \<and>
          map_of (payload req) ''tools'' = None)"
proof -
  from chat_completion_payload
      [of example_runtime "''hi''" "JObj [(''name'', JStr ''f'')]" "[(''model_name'', JStr ''m'')]"
          "0.7" 1000 "[]"]
  obtain r1 where r1:
    "call_vllm example_runtime ''hi'' (JObj [(''name'', JStr ''f'')])
       [(''model_name'', JStr ''m'')] 0.7 1000 [] = (http_post example_runtime r1, [] @ [r1])"
    "is_chat_payload (payload r1) (dict_get [(''model_name'', JStr ''m'')] ''model_name'' (JStr ''default''))
       ''hi'' (JObj [(''name'', JStr ''f'')]) 0.7 1000"
    by blast
  from chat_completion_payload [of example_runtime "''hi''" JNull "[]" "0.7" 1000 "[]"]
  obtain r2 where r2:
    "call_openai_compatible example_runtime ''hi'' JNull [] 0.7 1000 [] =
       (http_post example_runtime r2, [] @ [r2])"
    "is_chat_payload (payload r2) (dict_get [] ''model_name'' (JStr ''gpt-3.5-turbo''))
       ''hi'' JNull 0.7 1000"
    by blast
  have "\<exists>req. call_vllm example_runtime ''hi'' (JObj [(''name'', JStr ''f'')])
             [(''model_name'', JStr ''m'')] 0.7 1000 [] = (http_post example_runtime req, [req]) \<and>
          map_of (payload req) ''model'' = Some (JStr ''m'') \<and>
          map_of (payload req) ''messages'' =
            Some (JList [JObj [(''role'', JStr ''user''), (''content'', JStr ''hi'')]]) \<and>
          map_of (payload req) ''temperature'' = Some (JFloat 0.7) \<and>
          map_of (payload req) ''max_tokens'' = Some (JInt 1000) \<and>
          map_of (payload req) ''tools'' = Some (JList [JObj [(''name'', JStr ''f'')]])"
    using r1 by (intro exI [of _ r1]) (simp add: is_chat_payload_def dict_get_def)
  moreover have "\<exists>req. call_openai_compatible example_runtime ''hi'' JNull [] 0.7 1000 [] =
             (http_post example_runtime req, [req]) \<and>
          map_of (payload req) ''model'' = Some (JStr ''gpt-3.5-turbo'') \<and>
          map_of (payload req) ''tools'' = None"
    using r2 by (intro exI [of _ r2]) (simp add: is_chat_payload_def dict_get_def)
  ultimately show ?thesis by simp
qed

section \<open>Tool formatting: the identity branch and the reverse direction\<close>

text \<open>
  C6. With the format kind \<^verbatim>\<open>json\<close>, \<^verbatim>\<open>format_tools_for_model\<close> returns the list of
  tools it was given.
\<close>

theorem format_json_identity:
  "format_tools_for_model rt tools ''json'' = Inr (JList tools)"
  by (simp add: format_tools_for_model_def)

text \<open>
  C10. With any format kind other than \<^verbatim>\<open>xml\<close> and \<^verbatim>\<open>function_calling\<close>, known or
  not, \<^verbatim>\<open>format_tools_for_model\<close> returns the list of tools it was given and raises
  nothing.
\<close>

theorem format_other_kind_identity:
  assumes "format_type \<noteq> ''xml''" and "format_type \<noteq> ''function_calling''"
  shows "format_tools_for_model rt tools format_type = Inr (JList tools)"
  using assms by (simp add: format_tools_for_model_def)

theorem format_other_kind_identity_witness:
  "''yaml'' \<noteq> ''xml'' \<and> ''yaml'' \<noteq> ''function_calling'' \<and>
   format_tools_for_model example_runtime [JObj [(''function'', JStr ''f'')]] ''yaml'' =
     Inr (JList [JObj [(''function'', JStr ''f'')]]) \<and>
   [] \<noteq> ''xml'' \<and> [] \<noteq> ''function_calling'' \<and>
   format_tools_for_model example_runtime [JInt 3] [] = Inr (JList [JInt 3])"
proof -
  have y1: "''yaml'' \<noteq> ''xml''" and y2: "''yaml'' \<noteq> ''function_calling''"
    by simp_all
  have e1: "[] \<noteq> ''xml''" and e2: "[] \<noteq> ''function_calling''"
    by simp_all
  show ?thesis
    using y1 y2 e1 e2
      format_other_kind_identity [OF y1 y2, of example_runtime "[JObj [(''function'', JStr ''f'')]]"]
      format_other_kind_identity [OF e1 e2, of example_runtime "[JInt 3]"]
    by simp
qed

subsection \<open>The markup of a tool list\<close>

text \<open>
  C7. \<^verbatim>\<open>json_tools_to_xml\<close> puts the name and the description of a tool into the
  markup as they are. The list of the one tool whose description closes its own element
  and opens another gives the same document as the list of the two tools \<^verbatim>\<open>a\<close> and
  \<^verbatim>\<open>b\<close>, a document with two tool elements; and for the tool named \<^verbatim>\<open>a'b\<close> the
  attribute of the element ends at the quote inside the name, so that it reads
  \<^verbatim>\<open>a\<close>. On these lists the document does not have one tool element for each tool,
  carrying its name and its description.
\<close>

theorem json_tools_to_xml_unescaped:
  "json_tools_to_xml rt [tool_closing_description] = json_tools_to_xml rt [tool_a, tool_b] \<and>
   json_tools_to_xml rt [tool_a, tool_b] =
     Inr (''<tools><tool name='' @ [CHR 0x27] @ ''a'' @ [CHR 0x27]
          @ ''><description>d</description></tool><tool name='' @ [CHR 0x27] @ ''b'' @ [CHR 0x27]
          @ ''><description>e</description></tool></tools>'') \<and>
   json_tools_to_xml rt [tool_quoted_name] =
     Inr (''<tools><tool name='' @ [CHR 0x27] @ ''a'' @ [CHR 0x27] @ ''b'' @ [CHR 0x27]
          @ ''><description>d</description></tool></tools>'')"
  by (simp add: json_tools_to_xml_def tool_closing_description_def tool_a_def tool_b_def
      tool_quoted_name_def dict_get_def)

subsection \<open>From markup back to tools\<close>

text \<open>
  C8. For the markup of one tool \<^verbatim>\<open>f\<close>, \<^verbatim>\<open>xml_tools_to_json\<close> raises nothing and
  returns the empty list: neither the failure that the unimplemented direction should
  signal nor the definition of \<^verbatim>\<open>f\<close> that its docstring announces.
\<close>

theorem xml_tools_to_json_one_tool:
  "xml_tools_to_json (''<tools><tool name='' @ [CHR 0x27] @ ''f'' @ [CHR 0x27]
      @ ''><description>d</description></tool></tools>'') = Inr [] \<and>
   \<not> isl (xml_tools_to_json (''<tools><tool name='' @ [CHR 0x27] @ ''f'' @ [CHR 0x27]
      @ ''><description>d</description></tool></tools>''))"
  by (simp add: xml_tools_to_json_def)

end
